theory Spec2Isabelle
  imports Main
begin

section \<open>Curriculum model\<close>

text \<open>
  The interfaces of \<^verbatim>\<open>CourseDetail.tsx\<close> (lines 17-45). An optional member
  (\<^verbatim>\<open>_id?: string\<close>) is an \<open>option\<close>, \<open>None\<close> standing for \<^verbatim>\<open>undefined\<close>.
  \<^verbatim>\<open>videoDuration\<close> is a whole number of seconds, an \<open>int\<close>; array lengths and
  array indices are \<open>nat\<close>. Field names that are keywords of Isabelle or that occur in
  two interfaces carry the interface's name as a prefix. The optional display members of
  \<^verbatim>\<open>Course\<close> (rating, enrolment, instructor) are read by no function below and are
  left out.
\<close>

record resource =
  resource_id :: "string option"
  resource_title :: string
  url :: string

record codeSnippet =
  snippet_id :: "string option"
  language :: string
  snippet_code :: string

record quizOption =
  option_id :: "string option"
  option_text :: string
  isCorrect :: bool

record quiz =
  quiz_id :: "string option"
  question :: string
  options :: "quizOption list"

record lesson =
  lesson_id :: string
  lesson_title :: string
  videoKey :: "string option"
  videoDuration :: int
  isFree :: bool
  description :: "string option"
  resources :: "resource list option"
  codeSnippets :: "codeSnippet list option"
  quizzes :: "quiz list option"

record course_section =
  section_id :: string
  section_title :: string
  lessons :: "lesson list"

record course =
  course_id :: string
  course_title :: string
  course_description :: string
  sections :: "course_section list"
  updatedAt :: string

text \<open>
  The listing pages (\<^verbatim>\<open>ActivrCourse.tsx\<close> and \<^verbatim>\<open>InactiveCourses.tsx\<close>, lines 8-18)
  declare their own \<^verbatim>\<open>Section { lessons: any[] }\<close> and \<^verbatim>\<open>Course\<close>; the element type
  of \<^verbatim>\<open>lessons\<close> is a type parameter. A thumbnail is a string or an object with a
  \<^verbatim>\<open>url\<close>. The numeric display members (enrolment, rating, price) are read by no
  function below and are left out.
\<close>

datatype thumbnail = ThumbnailString string | ThumbnailObject string

record 'l listed_section =
  listed_lessons :: "'l list"

record 'l listed_course =
  listed_id :: string
  listed_title :: string
  category :: string
  listed_thumbnail :: thumbnail
  listed_sections :: "'l listed_section list"


section \<open>Derivation layer\<close>

subsection \<open>Lesson counts\<close>

text \<open>
  \<^verbatim>\<open>Array.prototype.reduce\<close> with an initial value is a left fold.
  \<^verbatim>\<open>x || 0\<close> on a number yields \<open>0\<close> when \<open>x\<close> is \<open>0\<close> and \<open>x\<close> otherwise.
\<close>

definition reduce :: "('b \<Rightarrow> 'a \<Rightarrow> 'b) \<Rightarrow> 'b \<Rightarrow> 'a list \<Rightarrow> 'b" where
  "reduce f init xs = foldl f init xs"

definition or_zero :: "nat \<Rightarrow> nat" where
  "or_zero x = (if x = 0 then 0 else x)"

text \<open>
  \<^verbatim>\<open>processedCourses\<close> (ActivrCourse.tsx line 48, InactiveCourses.tsx line 63):
  \<^verbatim>\<open>course.sections?.reduce((acc, sec) => acc + sec.lessons.length, 0) || 0\<close>.
\<close>

definition totalLessons :: "'l listed_course \<Rightarrow> nat" where
  "totalLessons c =
     or_zero (reduce (\<lambda>acc sec. acc + length (listed_lessons sec)) 0 (listed_sections c))"

text \<open>
  The sidebar header of \<^verbatim>\<open>CourseDetail\<close> (line 483):
  \<^verbatim>\<open>course.sections?.reduce((acc, s) => acc + s.lessons.length, 0)\<close>.
\<close>

definition lessonCount :: "course \<Rightarrow> nat" where
  "lessonCount c = reduce (\<lambda>acc s. acc + length (lessons s)) 0 (sections c)"


subsection \<open>Durations\<close>

text \<open>
  A JavaScript number is a 64-bit float. Whole numbers of magnitude below \<open>2 ^ 53\<close> are
  represented exactly, and on them addition (while the sum stays in that range), the
  remainder and the floored quotient by 3600 and by 60 are computed exactly. The
  functions below compute on \<open>int\<close> and are the code on that range only
  (\<open>safe_integer\<close>, \<open>exact_sum\<close>); beyond it the code rounds and these functions do
  not follow it. Fractional durations are not represented.

  The remainder operator \<^verbatim>\<open>%\<close> of JavaScript truncates: its result has the sign of
  the dividend. \<^verbatim>\<open>Math.floor(a / b)\<close> on whole numbers with \<open>b > 0\<close> is \<open>a div b\<close>,
  which rounds down in HOL as well.
\<close>

definition js_rem :: "int \<Rightarrow> int \<Rightarrow> int" where
  "js_rem a b = sgn a * (\<bar>a\<bar> mod \<bar>b\<bar>)"

text \<open>A whole number inside a template literal is printed in decimal.\<close>

definition digit_char :: "nat \<Rightarrow> char" where
  "digit_char d = ''0123456789'' ! d"

fun string_of_nat :: "nat \<Rightarrow> string" where
  "string_of_nat n =
     (if n < 10 then [digit_char n]
      else string_of_nat (n div 10) @ [digit_char (n mod 10)])"

definition string_of_int :: "int \<Rightarrow> string" where
  "string_of_int i =
     (if i < 0 then CHR ''-'' # string_of_nat (nat (- i)) else string_of_nat (nat i))"

text \<open>\<^verbatim>\<open>formatDuration\<close> (CourseDetail.tsx, lines 51-58).\<close>

definition formatDuration :: "int \<Rightarrow> string" where
  "formatDuration seconds =
     (if seconds = 0 then ''0m''
      else
        (let h = seconds div 3600;
             m = js_rem seconds 3600 div 60;
             s = js_rem seconds 60
         in if h > 0 then string_of_int h @ ''h '' @ string_of_int m @ ''m''
            else string_of_int m @ ''m '' @ string_of_int s @ ''s''))"

text \<open>
  The duration label of a section (line 499):
  \<^verbatim>\<open>formatDuration(section.lessons.reduce((acc, l) => acc + (l.videoDuration || 0), 0))\<close>.
\<close>

definition or_zero_int :: "int \<Rightarrow> int" where
  "or_zero_int x = (if x = 0 then 0 else x)"

definition totalSeconds :: "lesson list \<Rightarrow> int" where
  "totalSeconds ls = reduce (\<lambda>acc l. acc + or_zero_int (videoDuration l)) 0 ls"

definition totalDuration :: "lesson list \<Rightarrow> string" where
  "totalDuration ls = formatDuration (totalSeconds ls)"

text \<open>
  The range on which the reduce of line 499 is exact: the accumulator before and after
  every addition, and every duration added, is a whole number of magnitude below
  \<open>2 ^ 53\<close>.
\<close>

definition safe_integer :: "int \<Rightarrow> bool" where
  "safe_integer x = (\<bar>x\<bar> < 2 ^ 53)"

fun exact_sum :: "int \<Rightarrow> lesson list \<Rightarrow> bool" where
  "exact_sum acc [] = safe_integer acc"
| "exact_sum acc (l # ls) =
     (safe_integer acc \<and> safe_integer (videoDuration l)
      \<and> exact_sum (acc + or_zero_int (videoDuration l)) ls)"


section \<open>Navigation state machine\<close>

text \<open>
  The state of \<^verbatim>\<open>useCourseLogic\<close> (CourseDetail.tsx, lines 68-72). The initial
  values are those of the \<^verbatim>\<open>useState\<close> calls. The functions on it take the record
  with any extension, so that they also run inside the state of the whole view.
\<close>

record logic_state =
  loaded_course :: "course option"
  loading :: bool
  error :: "string option"
  activeLesson :: "lesson option"
  expandedSections :: "string set"

definition logic_init :: logic_state where
  "logic_init =
     \<lparr>loaded_course = None, loading = True, error = None,
      activeLesson = None, expandedSections = {}\<rparr>"

text \<open>
  Lines 83-91, the branch \<^verbatim>\<open>isMounted && data\<close> of \<^verbatim>\<open>load\<close>: the course is stored,
  the first section is expanded and its first lesson becomes the active one.
\<close>

definition load_success :: "'a logic_state_scheme \<Rightarrow> course \<Rightarrow> 'a logic_state_scheme" where
  "load_success st data =
     (let st1 = st\<lparr>loaded_course := Some data\<rparr> in
      case sections data of
        [] \<Rightarrow> st1
      | firstSection # _ \<Rightarrow>
          (let st2 = st1\<lparr>expandedSections := {section_id firstSection}\<rparr> in
           case lessons firstSection of
             [] \<Rightarrow> st2
           | firstLesson # _ \<Rightarrow> st2\<lparr>activeLesson := Some firstLesson\<rparr>))"

text \<open>Lines 105-112, the updater that \<^verbatim>\<open>toggleSection\<close> passes to the state setter.\<close>

definition toggleSection :: "string \<Rightarrow> string set \<Rightarrow> string set" where
  "toggleSection sectionId prev =
     (if sectionId \<in> prev then prev - {sectionId} else insert sectionId prev)"


text \<open>
  \<^verbatim>\<open>load\<close> (lines 76-100). The collaborator \<^verbatim>\<open>fetchCourseById\<close> is a parameter: it
  resolves with a course or with nothing (\<open>Data\<close>), or rejects with an error that may
  carry a message (\<open>Thrown\<close>). A missing id throws before the collaborator is asked.
  The \<^verbatim>\<open>catch\<close> clause never reads the error it catches.
\<close>

datatype load_outcome = Data "course option" | Thrown "string option"

definition load_begin :: "'a logic_state_scheme \<Rightarrow> 'a logic_state_scheme" where
  "load_begin st = st\<lparr>loading := True\<rparr>"

definition load_settle ::
  "bool \<Rightarrow> 'a logic_state_scheme \<Rightarrow> load_outcome \<Rightarrow> 'a logic_state_scheme" where
  "load_settle isMounted st outcome =
     (if \<not> isMounted then st
      else
        (case outcome of
           Data (Some data) \<Rightarrow> load_success st data
         | Data None \<Rightarrow> st\<lparr>error := Some ''Course not found.''\<rparr>
         | Thrown _ \<Rightarrow> st\<lparr>error := Some ''Failed to load course.''\<rparr>)
        \<lparr>loading := False\<rparr>)"

text \<open>Lines 79-80: the guard on the route parameter, then the call of the collaborator.\<close>

definition request :: "string option \<Rightarrow> (string \<Rightarrow> load_outcome) \<Rightarrow> load_outcome" where
  "request ident fetchCourseById =
     (case ident of
        None \<Rightarrow> Thrown (Some ''No Course ID'')
      | Some i \<Rightarrow> if i = [] then Thrown (Some ''No Course ID'') else fetchCourseById i)"

text \<open>A whole run of \<^verbatim>\<open>load\<close> in a component that stays mounted.\<close>

definition load ::
  "string option \<Rightarrow> (string \<Rightarrow> load_outcome) \<Rightarrow> 'a logic_state_scheme \<Rightarrow> 'a logic_state_scheme" where
  "load ident fetchCourseById st =
     load_settle True (load_begin st) (request ident fetchCourseById)"


section \<open>Search and fetch cycle\<close>

text \<open>
  The state of \<^verbatim>\<open>useArchivedCourses\<close> (InactiveCourses.tsx, lines 22-26). The fields
  \<open>fetch_loading\<close> and \<open>fetch_error\<close> are the hook's \<^verbatim>\<open>loading\<close> and \<^verbatim>\<open>error\<close>.
\<close>

record 'l archive_state =
  courses :: "'l listed_course list"
  fetch_loading :: bool
  fetch_error :: "string option"
  searchTerm :: string
  isFiltering :: bool

definition archive_init :: "'l archive_state" where
  "archive_init =
     \<lparr>courses = [], fetch_loading = True, fetch_error = None,
      searchTerm = [], isFiltering = False\<rparr>"

text \<open>
  What the request of \<^verbatim>\<open>api.get\<close> settles with: the course list of the response, or
  a rejection whose \<^verbatim>\<open>err.response?.data?.message\<close> is a string or undefined.
\<close>

datatype 'l response = Resolved "'l listed_course list" | Rejected "string option"

text \<open>\<^verbatim>\<open>message || fallback\<close>: an undefined or empty message is falsy.\<close>

definition message_or :: "string option \<Rightarrow> string \<Rightarrow> string" where
  "message_or m fallback =
     (case m of None \<Rightarrow> fallback | Some s \<Rightarrow> if s = [] then fallback else s)"

text \<open>
  \<^verbatim>\<open>fetchArchivedCourses\<close> (lines 28-40) in its two halves: what runs before the
  \<^verbatim>\<open>await\<close>, and what runs when the request settles. Neither half looks at the
  keyword of the request or at the requests issued since.
\<close>

definition fetch_begin :: "'l archive_state \<Rightarrow> 'l archive_state" where
  "fetch_begin st = st\<lparr>fetch_loading := True\<rparr>"

definition fetch_settle :: "'l archive_state \<Rightarrow> 'l response \<Rightarrow> 'l archive_state" where
  "fetch_settle st r =
     (case r of
        Resolved cs \<Rightarrow> st\<lparr>courses := cs, fetch_error := None\<rparr>
      | Rejected m \<Rightarrow>
          st\<lparr>fetch_error := Some (message_or m ''Failed to load archived courses'')\<rparr>)
     \<lparr>fetch_loading := False, isFiltering := False\<rparr>"

text \<open>
  The hook together with the requests in flight, each named by its keyword. The events
  are the initial load (lines 43-45), typing into the search box, a key press in it
  (\<^verbatim>\<open>handleSearch\<close>, lines 48-53), \<^verbatim>\<open>clearFilters\<close> (lines 55-58), \<^verbatim>\<open>retry\<close>
  (line 88), and the arrival of the response to a request in flight.
\<close>

record 'l fetch_world =
  hook :: "'l archive_state"
  pending :: "string list"

datatype 'l fetch_event =
    InitialLoad
  | SetSearchTerm string
  | KeyDown string
  | ClearFilters
  | Retry
  | Settle string "'l response"

definition fetchArchivedCourses :: "string \<Rightarrow> 'l fetch_world \<Rightarrow> 'l fetch_world" where
  "fetchArchivedCourses keyword w =
     w\<lparr>hook := fetch_begin (hook w), pending := pending w @ [keyword]\<rparr>"

fun fetch_step :: "'l fetch_world \<Rightarrow> 'l fetch_event \<Rightarrow> 'l fetch_world" where
  "fetch_step w InitialLoad = fetchArchivedCourses [] w"
| "fetch_step w (SetSearchTerm t) = w\<lparr>hook := (hook w)\<lparr>searchTerm := t\<rparr>\<rparr>"
| "fetch_step w (KeyDown k) =
     (if k = ''Enter''
      then fetchArchivedCourses (searchTerm (hook w)) (w\<lparr>hook := (hook w)\<lparr>isFiltering := True\<rparr>\<rparr>)
      else w)"
| "fetch_step w ClearFilters =
     fetchArchivedCourses [] (w\<lparr>hook := (hook w)\<lparr>searchTerm := []\<rparr>\<rparr>)"
| "fetch_step w Retry = fetchArchivedCourses (searchTerm (hook w)) w"
| "fetch_step w (Settle keyword r) =
     (if keyword \<in> set (pending w)
      then w\<lparr>hook := fetch_settle (hook w) r, pending := remove1 keyword (pending w)\<rparr>
      else w)"

definition fetch_run :: "'l fetch_world \<Rightarrow> 'l fetch_event list \<Rightarrow> 'l fetch_world" where
  "fetch_run w evs = foldl fetch_step w evs"

definition world_init :: "'l fetch_world" where
  "world_init = \<lparr>hook = archive_init, pending = []\<rparr>"


section \<open>Quiz assessment engine\<close>

text \<open>
  The state of \<^verbatim>\<open>QuizModule\<close> (CourseDetail.tsx, lines 187-188): two objects keyed by
  the question index. A key that was never written reads as \<^verbatim>\<open>undefined\<close>, here
  \<open>None\<close>.
\<close>

record quiz_state =
  answers :: "nat \<rightharpoonup> nat"
  submitted :: "nat \<rightharpoonup> bool"

definition quiz_init :: quiz_state where
  "quiz_init = \<lparr>answers = Map.empty, submitted = Map.empty\<rparr>"

text \<open>Truthiness of a value that is a boolean or undefined.\<close>

definition truthy :: "bool option \<Rightarrow> bool" where
  "truthy v = (v = Some True)"

text \<open>\<^verbatim>\<open>handleSelect\<close> (lines 190-192).\<close>

definition handleSelect :: "quiz_state \<Rightarrow> nat \<Rightarrow> nat \<Rightarrow> quiz_state" where
  "handleSelect st qIdx oIdx =
     (if \<not> truthy (submitted st qIdx) then st\<lparr>answers := (answers st)(qIdx \<mapsto> oIdx)\<rparr> else st)"

text \<open>
  Reading an array at an index (\<^verbatim>\<open>quiz.options[selected]\<close>): undefined when the index
  is undefined or not below the length.
\<close>

definition js_index :: "'a list \<Rightarrow> nat option \<Rightarrow> 'a option" where
  "js_index xs i =
     (case i of None \<Rightarrow> None | Some n \<Rightarrow> if n < length xs then Some (xs ! n) else None)"

text \<open>
  Line 204, \<^verbatim>\<open>isSub && quiz.options[selected]?.isCorrect\<close>: a falsy \<^verbatim>\<open>isSub\<close> is the
  value of the conjunction; otherwise the optional chain reads the flag of the selected
  option, or gives undefined when there is no such option.
\<close>

definition quiz_isCorrect :: "quiz \<Rightarrow> quiz_state \<Rightarrow> nat \<Rightarrow> bool option" where
  "quiz_isCorrect q st qIdx =
     (let selected = answers st qIdx;
          isSub = submitted st qIdx
      in if truthy isSub then map_option isCorrect (js_index (options q) selected) else isSub)"

text \<open>
  What an option button shows (lines 213-232): its style and its icon. \<open>Check\<close> is
  \<^verbatim>\<open>CheckCircle2\<close>, \<open>Cross\<close> is \<^verbatim>\<open>XCircle\<close>.
\<close>

datatype option_style = Neutral | Emerald | Rose | Violet

datatype option_icon = NoIcon | Check | Cross | CheckAndCross

definition option_style_of :: "bool option \<Rightarrow> nat option \<Rightarrow> nat \<Rightarrow> quizOption \<Rightarrow> option_style" where
  "option_style_of isSub selected oIdx opt =
     (if truthy isSub then
        (if isCorrect opt then Emerald
         else if selected = Some oIdx \<and> \<not> isCorrect opt then Rose
         else Neutral)
      else if selected = Some oIdx then Violet
      else Neutral)"

definition option_icon_of :: "bool option \<Rightarrow> nat option \<Rightarrow> nat \<Rightarrow> quizOption \<Rightarrow> option_icon" where
  "option_icon_of isSub selected oIdx opt =
     (let check = (truthy isSub \<and> isCorrect opt);
          cross = (truthy isSub \<and> selected = Some oIdx \<and> \<not> isCorrect opt)
      in if check \<and> cross then CheckAndCross
         else if check then Check
         else if cross then Cross
         else NoIcon)"

text \<open>
  The two kinds of button of the module. An option button exists for every option of
  every quiz of the list and is disabled once the question is submitted (line 226). The
  submit button of a question is rendered while the question is not submitted (line 236)
  and is disabled while no answer is recorded (line 240); its handler is line 239.
\<close>

datatype quiz_event = SelectOption nat nat | Submit nat

fun quiz_step :: "quiz list \<Rightarrow> quiz_state \<Rightarrow> quiz_event \<Rightarrow> quiz_state" where
  "quiz_step qs st (SelectOption qIdx oIdx) =
     (if qIdx < length qs \<and> oIdx < length (options (qs ! qIdx)) \<and> \<not> truthy (submitted st qIdx)
      then handleSelect st qIdx oIdx
      else st)"
| "quiz_step qs st (Submit qIdx) =
     (if qIdx < length qs \<and> \<not> truthy (submitted st qIdx) \<and> answers st qIdx \<noteq> None
      then st\<lparr>submitted := (submitted st)(qIdx \<mapsto> True)\<rparr>
      else st)"

definition quiz_run :: "quiz list \<Rightarrow> quiz_state \<Rightarrow> quiz_event list \<Rightarrow> quiz_state" where
  "quiz_run qs st evs = foldl (quiz_step qs) st evs"


section \<open>The course view\<close>

text \<open>
  \<^verbatim>\<open>CourseDetail\<close> (lines 307-578): the state of \<^verbatim>\<open>useCourseLogic\<close>, the component's
  own two state variables, and the state of the \<^verbatim>\<open>QuizModule\<close> instance when one is
  mounted. The module is the element of lines 451-453, rendered without a
  \<^verbatim>\<open>key\<close> at a fixed position of the overview tab when the active lesson has a
  non-empty quiz list. The framework keeps the state of a component instance for as
  long as an element of the same component is rendered at the same position, whatever
  its props; it creates a fresh instance when the element appears and discards the
  instance when the element is gone.
\<close>

datatype tab = Overview | QA | Notes

record view_state = logic_state +
  activeTab :: tab
  mobileMenuOpen :: bool
  quizModule :: "quiz_state option"

definition view_init :: view_state where
  "view_init =
     \<lparr>loaded_course = None, loading = True, error = None,
      activeLesson = None, expandedSections = {},
      activeTab = Overview, mobileMenuOpen = False, quizModule = None\<rparr>"

definition active_quizzes :: "view_state \<Rightarrow> quiz list" where
  "active_quizzes v =
     (case activeLesson v of
        None \<Rightarrow> []
      | Some l \<Rightarrow> (case quizzes l of None \<Rightarrow> [] | Some qs \<Rightarrow> qs))"

text \<open>
  The module is rendered when the view is past its two early returns (line 317 while
  loading, line 319 on \<^verbatim>\<open>error || !course\<close>), the overview tab is open (line 417) and
  the condition of line 451 holds.
\<close>

definition falsy_string :: "string option \<Rightarrow> bool" where
  "falsy_string e = (case e of None \<Rightarrow> True | Some s \<Rightarrow> s = [])"

definition quiz_rendered :: "view_state \<Rightarrow> bool" where
  "quiz_rendered v =
     (\<not> loading v \<and> falsy_string (error v) \<and> loaded_course v \<noteq> None
      \<and> activeTab v = Overview \<and> active_quizzes v \<noteq> [])"

definition reconcile :: "bool \<Rightarrow> quiz_state option \<Rightarrow> quiz_state option" where
  "reconcile rendered inst =
     (if rendered then (case inst of None \<Rightarrow> Some quiz_init | Some st \<Rightarrow> Some st) else None)"

definition render :: "view_state \<Rightarrow> view_state" where
  "render v = v\<lparr>quizModule := reconcile (quiz_rendered v) (quizModule v)\<rparr>"

text \<open>
  \<^verbatim>\<open>selectLesson\<close> (lines 114-117). The events of the view: a run of \<^verbatim>\<open>load\<close>
  (the view is rendered once while loading and once when the load has settled), a
  click on a lesson item (line 517), on a section header (line 491), on a tab (line
  403), and on a button of the quiz module when one is mounted. The view is rendered
  again after every event.
\<close>

definition selectLesson :: "lesson \<Rightarrow> view_state \<Rightarrow> view_state" where
  "selectLesson l v = v\<lparr>activeLesson := Some l\<rparr>"

datatype view_event =
    Loaded "string option" load_outcome
  | LessonClick lesson
  | SectionClick string
  | TabClick tab
  | QuizClick quiz_event

fun view_step :: "view_state \<Rightarrow> view_event \<Rightarrow> view_state" where
  "view_step v (Loaded ident outcome) =
     render (load_settle True (render (load_begin v)) (request ident (\<lambda>_. outcome)))"
| "view_step v (LessonClick l) = render ((selectLesson l v)\<lparr>mobileMenuOpen := False\<rparr>)"
| "view_step v (SectionClick sid) =
     render (v\<lparr>expandedSections := toggleSection sid (expandedSections v)\<rparr>)"
| "view_step v (TabClick t) = render (v\<lparr>activeTab := t\<rparr>)"
| "view_step v (QuizClick ev) =
     (case quizModule v of
        None \<Rightarrow> v
      | Some st \<Rightarrow> render (v\<lparr>quizModule := Some (quiz_step (active_quizzes v) st ev)\<rparr>))"

definition view_run :: "view_state \<Rightarrow> view_event list \<Rightarrow> view_state" where
  "view_run v evs = foldl view_step v evs"



section \<open>The durations of the specification\<close>

text \<open>
  The format in the specification's words, for a total of \<open>t\<close> seconds: hours, minutes
  and seconds are the usual parts of \<open>t\<close>; the label is \<^verbatim>\<open>{h}h {m}m\<close> when the hours
  are positive, \<^verbatim>\<open>{m}m {s}s\<close> otherwise, and \<^verbatim>\<open>0m\<close> for a total of zero. It is
  compared with \<open>formatDuration\<close> below.
\<close>

definition spec_duration_format :: "nat \<Rightarrow> string" where
  "spec_duration_format t =
     (if t = 0 then ''0m''
      else if t div 3600 > 0
        then string_of_nat (t div 3600) @ ''h '' @ string_of_nat (t mod 3600 div 60) @ ''m''
        else string_of_nat (t mod 3600 div 60) @ ''m '' @ string_of_nat (t mod 60) @ ''s'')"


section \<open>Sample data\<close>

text \<open>
  A small course for the closed instances below: section \<open>A\<close> with the lessons \<open>L1\<close>
  and \<open>L2\<close>, both with a quiz, and section \<open>B\<close> with the lesson \<open>L3\<close>, which has
  none. The quiz of \<open>L1\<close> flags two of its three options as correct; the quiz of
  \<open>L2\<close> has a single option.
\<close>

definition sample_option :: "string \<Rightarrow> bool \<Rightarrow> quizOption" where
  "sample_option t c = \<lparr>option_id = None, option_text = t, isCorrect = c\<rparr>"

definition quiz_two_flags :: quiz where
  "quiz_two_flags =
     \<lparr>quiz_id = None, question = ''Q1'',
      options = [sample_option ''a'' True, sample_option ''b'' True, sample_option ''c'' False]\<rparr>"

definition quiz_one_option :: quiz where
  "quiz_one_option =
     \<lparr>quiz_id = None, question = ''Q2'', options = [sample_option ''d'' True]\<rparr>"

definition sample_lesson :: "string \<Rightarrow> int \<Rightarrow> quiz list option \<Rightarrow> lesson" where
  "sample_lesson i d qs =
     \<lparr>lesson_id = i, lesson_title = i, videoKey = None, videoDuration = d, isFree = True,
      description = None, resources = None, codeSnippets = None, quizzes = qs\<rparr>"

definition lesson_L1 :: lesson where
  "lesson_L1 = sample_lesson ''L1'' 3661 (Some [quiz_two_flags])"

definition lesson_L2 :: lesson where
  "lesson_L2 = sample_lesson ''L2'' 59 (Some [quiz_one_option])"

definition lesson_L3 :: lesson where
  "lesson_L3 = sample_lesson ''L3'' 0 None"

definition section_A :: course_section where
  "section_A = \<lparr>section_id = ''A'', section_title = ''A'', lessons = [lesson_L1, lesson_L2]\<rparr>"

definition section_B :: course_section where
  "section_B = \<lparr>section_id = ''B'', section_title = ''B'', lessons = [lesson_L3]\<rparr>"

definition sample_course :: "course_section list \<Rightarrow> course" where
  "sample_course ss =
     \<lparr>course_id = ''c1'', course_title = ''Course'', course_description = [],
      sections = ss, updatedAt = []\<rparr>"

definition sample_listed :: "string \<Rightarrow> nat list \<Rightarrow> nat listed_course" where
  "sample_listed t ns =
     \<lparr>listed_id = t, listed_title = t, category = ''Development'',
      listed_thumbnail = ThumbnailString [],
      listed_sections = map (\<lambda>n. \<lparr>listed_lessons = replicate n (0::nat)\<rparr>) ns\<rparr>"


text \<open>
  A session of the archive listing: the initial load and its response, then a search
  for \<open>go\<close> and a search for \<open>rust\<close> while the first is still in flight; the
  response to \<open>rust\<close> arrives first.
\<close>

definition go_rust_events :: "nat fetch_event list" where
  "go_rust_events =
     [InitialLoad, Settle [] (Resolved []),
      SetSearchTerm ''go'', KeyDown ''Enter'',
      SetSearchTerm ''rust'', KeyDown ''Enter'',
      Settle ''rust'' (Resolved [sample_listed ''rust'' [2]])]"



text \<open>The first session again, continued with a click on \<open>L2\<close>.\<close>

definition stale_view :: view_state where
  "stale_view =
     view_run view_init
       [Loaded (Some ''c1'') (Data (Some (sample_course [section_A, section_B]))),
        QuizClick (SelectOption 0 1), QuizClick (Submit 0), LessonClick lesson_L2]"


section \<open>Properties of the derivation layer\<close>

lemma foldl_add_length:
  "foldl (\<lambda>acc s. acc + length (f s)) a xs = a + sum_list (map (\<lambda>s. length (f s)) xs)"
  by (induction xs arbitrary: a) simp_all

text \<open>
  Claim C7. For every course snapshot the lesson count is the sum of the lengths of the
  lesson arrays of its sections, in the listing pages (\<open>totalLessons\<close>) and in the
  course view (\<open>lessonCount\<close>) alike; it is zero for a course with no sections.
\<close>

theorem lessonCount_sum:
  "totalLessons lc = sum_list (map (\<lambda>sec. length (listed_lessons sec)) (listed_sections lc))
   \<and> lessonCount c = sum_list (map (\<lambda>s. length (lessons s)) (sections c))
   \<and> (listed_sections lc = [] \<longrightarrow> totalLessons lc = 0)
   \<and> (sections c = [] \<longrightarrow> lessonCount c = 0)"
  by (simp add: totalLessons_def lessonCount_def reduce_def or_zero_def foldl_add_length)

theorem lessonCount_sum_witness:
  "totalLessons (sample_listed ''go'' [2, 0, 3]) = 5
   \<and> lessonCount (sample_course [section_A, section_B]) = 3
   \<and> listed_sections (sample_listed ''go'' []) = []
   \<and> totalLessons (sample_listed ''go'' []) = 0
   \<and> sections (sample_course []) = []
   \<and> lessonCount (sample_course []) = 0"
  using lessonCount_sum [of "sample_listed ''go'' [2, 0, 3]" "sample_course [section_A, section_B]"]
    lessonCount_sum [of "sample_listed ''go'' []" "sample_course []"]
  by (simp add: sample_listed_def sample_course_def section_A_def section_B_def)

lemma foldl_add_duration:
  "foldl (\<lambda>acc l. acc + or_zero_int (videoDuration l)) a ls = a + sum_list (map videoDuration ls)"
  by (induction ls arbitrary: a) (simp_all add: or_zero_int_def)

lemma totalSeconds_sum: "totalSeconds ls = sum_list (map videoDuration ls)"
  by (simp add: totalSeconds_def reduce_def foldl_add_duration)

lemma js_rem_nonneg: "0 \<le> a \<Longrightarrow> 0 < b \<Longrightarrow> js_rem a b = a mod b"
  by (cases "a = 0") (simp_all add: js_rem_def)

lemma string_of_int_int: "string_of_int (int k) = string_of_nat k"
  by (simp add: string_of_int_def del: string_of_nat.simps)

lemma formatDuration_int: "formatDuration (int n) = spec_duration_format n"
proof -
  have h: "int n div 3600 = int (n div 3600)" by (simp add: zdiv_int)
  have m: "js_rem (int n) 3600 div 60 = int (n mod 3600 div 60)"
    by (simp add: js_rem_nonneg zdiv_int zmod_int)
  have s: "js_rem (int n) 60 = int (n mod 60)"
    by (simp add: js_rem_nonneg zmod_int)
  show ?thesis
    unfolding formatDuration_def spec_duration_format_def Let_def h m s string_of_int_int
    by simp
qed

lemma formatDuration_nonneg:
  assumes "0 \<le> t"
  shows "formatDuration t = spec_duration_format (nat t)"
  using formatDuration_int [of "nat t"] assms by simp

lemma formatDuration_neg:
  assumes "t < 0"
  shows "formatDuration t =
    string_of_int (js_rem t 3600 div 60) @ ''m '' @ string_of_int (js_rem t 60) @ ''s''"
proof -
  have "t div 3600 < 0" using assms by (simp add: div_neg_pos_less0)
  then show ?thesis using assms by (simp add: formatDuration_def Let_def)
qed

lemma nonneg_exact_sum:
  "0 \<le> acc \<Longrightarrow> \<forall>l\<in>set ls. 0 \<le> videoDuration l \<Longrightarrow>
     acc + sum_list (map videoDuration ls) < 2 ^ 53 \<Longrightarrow> exact_sum acc ls"
proof (induction ls arbitrary: acc)
  case Nil
  then show ?case by (simp add: safe_integer_def)
next
  case (Cons l ls)
  have rest: "0 \<le> sum_list (map videoDuration ls)"
    using Cons.prems(2) by (auto intro!: sum_list_nonneg)
  have d: "0 \<le> videoDuration l" using Cons.prems(2) by simp
  have tot: "acc + videoDuration l + sum_list (map videoDuration ls) < 2 ^ 53"
    using Cons.prems(3) by simp
  have "exact_sum (acc + videoDuration l) ls"
    using Cons.IH [of "acc + videoDuration l"] Cons.prems(1,2) d tot by simp
  moreover have "safe_integer acc" and "safe_integer (videoDuration l)"
    using Cons.prems(1) d rest tot by (simp_all add: safe_integer_def)
  ultimately show ?case by (simp add: or_zero_int_def)
qed

text \<open>
  Claim C6. For every lesson sequence whose durations are whole seconds that the code
  adds exactly (\<open>exact_sum\<close>; in particular durations that are not negative with a
  total below \<open>2 ^ 53\<close>), the duration label is the format of the sum of the lessons'
  \<open>videoDuration\<close>: for a sum that is not negative it is the label of the
  specification (\<open>spec_duration_format\<close>: hours and minutes when the hours are
  positive, minutes and seconds otherwise, \<open>0m\<close> for zero); a negative sum has no
  positive hour part and is printed as minutes and seconds. The label of the empty
  sequence is \<open>0m\<close>, and the label of a single lesson of 3661 seconds is \<open>1h 1m\<close>.
\<close>

theorem totalDuration_format:
  "(exact_sum 0 ls \<longrightarrow>
      (0 \<le> sum_list (map videoDuration ls) \<longrightarrow>
         totalDuration ls = spec_duration_format (nat (sum_list (map videoDuration ls))))
      \<and> (sum_list (map videoDuration ls) < 0 \<longrightarrow>
         totalDuration ls =
           string_of_int (js_rem (sum_list (map videoDuration ls)) 3600 div 60) @ ''m '' @
           string_of_int (js_rem (sum_list (map videoDuration ls)) 60) @ ''s''))
   \<and> ((\<forall>l\<in>set ls. 0 \<le> videoDuration l) \<and> sum_list (map videoDuration ls) < 2 ^ 53 \<longrightarrow>
        exact_sum 0 ls)
   \<and> totalDuration [] = ''0m''
   \<and> totalDuration [l\<lparr>videoDuration := 3661\<rparr>] = ''1h 1m''"
proof -
  have empty: "totalDuration [] = ''0m''"
    by (simp add: totalDuration_def totalSeconds_sum formatDuration_def)
  have single: "totalDuration [l\<lparr>videoDuration := 3661\<rparr>] = ''1h 1m''"
    by (simp add: totalDuration_def totalSeconds_sum formatDuration_def js_rem_def
        string_of_int_def digit_char_def)
  have bound: "(\<forall>l\<in>set ls. 0 \<le> videoDuration l) \<and> sum_list (map videoDuration ls) < 2 ^ 53 \<longrightarrow>
        exact_sum 0 ls"
    using nonneg_exact_sum [of 0 ls] by simp
  show ?thesis
    using empty single bound
    by (simp add: totalDuration_def totalSeconds_sum formatDuration_nonneg formatDuration_neg
        del: string_of_nat.simps)
qed

theorem totalDuration_format_witness:
  "exact_sum 0 [lesson_L1, lesson_L2]
   \<and> 0 \<le> sum_list (map videoDuration [lesson_L1, lesson_L2])
   \<and> sum_list (map videoDuration [lesson_L1, lesson_L2]) < 2 ^ 53
   \<and> totalDuration [lesson_L1, lesson_L2] = ''1h 2m''
   \<and> exact_sum 0 [lesson_L2]
   \<and> totalDuration [lesson_L2] = ''0m 59s''
   \<and> exact_sum 0 [sample_lesson ''x'' (- 30) None]
   \<and> sum_list (map videoDuration [sample_lesson ''x'' (- 30) None]) < 0
   \<and> totalDuration [sample_lesson ''x'' (- 30) None] = ''-1m -30s''"
  using totalDuration_format [of "[lesson_L1, lesson_L2]"]
    totalDuration_format [of "[lesson_L2]"]
    totalDuration_format [of "[sample_lesson ''x'' (- 30) None]"]
  by (simp add: lesson_L1_def lesson_L2_def sample_lesson_def spec_duration_format_def
      js_rem_def string_of_int_def digit_char_def safe_integer_def or_zero_int_def)


section \<open>Properties of the navigation state machine\<close>

lemma load_resolved:
  "i \<noteq> [] \<Longrightarrow> fetch i = Data (Some data) \<Longrightarrow>
     load (Some i) fetch st = (load_success (st\<lparr>loading := True\<rparr>) data)\<lparr>loading := False\<rparr>"
  by (simp add: load_def request_def load_settle_def load_begin_def)

text \<open>
  Claim C5. When the load of a course succeeds and the course has a first section, the
  expanded set becomes exactly that section's id and, if the section has a first
  lesson, that lesson becomes the active lesson (a first section without lessons leaves
  the active lesson as it was). When the course has no sections, the expanded set and
  the active lesson are left as they were; from the initial state both are empty.
\<close>

theorem load_initializes_navigation:
  assumes "i \<noteq> []" and "fetch i = Data (Some data)"
  shows "(\<forall>s ss. sections data = s # ss \<longrightarrow>
            expandedSections (load (Some i) fetch st) = {section_id s}
            \<and> (\<forall>l ls. lessons s = l # ls \<longrightarrow> activeLesson (load (Some i) fetch st) = Some l)
            \<and> (lessons s = [] \<longrightarrow> activeLesson (load (Some i) fetch st) = activeLesson st))
         \<and> (sections data = [] \<longrightarrow>
              expandedSections (load (Some i) fetch st) = expandedSections st
              \<and> activeLesson (load (Some i) fetch st) = activeLesson st)
         \<and> (sections data = [] \<longrightarrow>
              expandedSections (load (Some i) fetch logic_init) = {}
              \<and> activeLesson (load (Some i) fetch logic_init) = None)"
proof -
  note eq = load_resolved [where fetch = fetch and i = i, OF assms]
  show ?thesis
    by (auto simp: eq load_success_def logic_init_def Let_def split: list.splits)
qed

theorem load_initializes_navigation_witness:
  "expandedSections (load (Some ''c1'') (\<lambda>_. Data (Some (sample_course [section_A, section_B]))) logic_init)
     = {''A''}
   \<and> activeLesson (load (Some ''c1'') (\<lambda>_. Data (Some (sample_course [section_A, section_B]))) logic_init)
     = Some lesson_L1
   \<and> expandedSections (load (Some ''c1'') (\<lambda>_. Data (Some (sample_course []))) logic_init) = {}
   \<and> activeLesson (load (Some ''c1'') (\<lambda>_. Data (Some (sample_course []))) logic_init) = None"
proof -
  let ?c = "sample_course [section_A, section_B]"
  let ?e = "sample_course []"
  have ne: "''c1'' \<noteq> []" by simp
  have secs: "sections ?c = section_A # [section_B]" and none: "sections ?e = []"
    by (simp_all add: sample_course_def)
  have less: "lessons section_A = lesson_L1 # [lesson_L2]" and sid: "section_id section_A = ''A''"
    by (simp_all add: section_A_def)
  have full: "expandedSections (load (Some ''c1'') (\<lambda>_. Data (Some ?c)) logic_init) = {''A''}
      \<and> activeLesson (load (Some ''c1'') (\<lambda>_. Data (Some ?c)) logic_init) = Some lesson_L1"
    using load_initializes_navigation
        [where fetch = "\<lambda>_. Data (Some ?c)" and st = logic_init, OF ne refl] secs less sid
    by metis
  have empty: "expandedSections (load (Some ''c1'') (\<lambda>_. Data (Some ?e)) logic_init) = {}
      \<and> activeLesson (load (Some ''c1'') (\<lambda>_. Data (Some ?e)) logic_init) = None"
    using load_initializes_navigation
        [where fetch = "\<lambda>_. Data (Some ?e)" and st = logic_init, OF ne refl] none
    by metis
  from full empty show ?thesis by simp
qed

text \<open>
  Claim C9. \<open>toggleSection\<close> is the symmetric difference of the expanded set with the
  singleton of the section id: the id is removed when present and added otherwise.
  Toggling the same id twice gives back the original set.
\<close>

theorem toggleSection_twice:
  "toggleSection sid S = (S - {sid}) \<union> ({sid} - S)
   \<and> (sid \<in> S \<longrightarrow> toggleSection sid S = S - {sid})
   \<and> (sid \<notin> S \<longrightarrow> toggleSection sid S = insert sid S)
   \<and> toggleSection sid (toggleSection sid S) = S"
  by (auto simp: toggleSection_def)

theorem toggleSection_twice_witness:
  "''A'' \<in> {''A'', ''B''}
   \<and> toggleSection ''A'' {''A'', ''B''} = {''B''}
   \<and> ''C'' \<notin> {''A'', ''B''}
   \<and> toggleSection ''C'' {''A'', ''B''} = {''C'', ''A'', ''B''}
   \<and> toggleSection ''A'' (toggleSection ''A'' {''A'', ''B''}) = {''A'', ''B''}"
proof -
  have present: "''A'' \<in> {''A'', ''B''}" and absent: "''C'' \<notin> {''A'', ''B''}"
    by simp_all
  have removed: "{''A'', ''B''} - {''A''} = {''B''}"
    by simp
  from toggleSection_twice [of "''A''" "{''A'', ''B''}"] toggleSection_twice [of "''C''" "{''A'', ''B''}"]
    present absent removed
  show ?thesis by metis
qed


section \<open>Properties of the search and fetch cycle\<close>

lemma fetch_run_snoc: "fetch_run w (evs @ [ev]) = fetch_step (fetch_run w evs) ev"
  by (simp add: fetch_run_def)

text \<open>
  Claim C1, as stated, fails: after the searches for \<open>go\<close> and \<open>rust\<close>, with the
  response to \<open>rust\<close> arriving first, the late response to \<open>go\<close> replaces the
  courses of \<open>rust\<close>.
\<close>

theorem stale_response_counterexample:
  "pending (fetch_run world_init go_rust_events) = [''go'']
   \<and> courses (hook (fetch_run world_init go_rust_events)) = [sample_listed ''rust'' [2]]
   \<and> courses (hook (fetch_run world_init
         (go_rust_events @ [Settle ''go'' (Resolved [sample_listed ''go'' [1]])])))
       = [sample_listed ''go'' [1]]
   \<and> [sample_listed ''go'' [1]] \<noteq> [sample_listed ''rust'' [2]]"
  by (simp add: fetch_run_def go_rust_events_def world_init_def archive_init_def
      fetchArchivedCourses_def fetch_begin_def fetch_settle_def sample_listed_def)

text \<open>
  Claim C1, amended. The response that arrives last wins: whenever the response to a
  request in flight arrives and is successful, the courses become the courses of that
  response and the error is cleared, whatever was requested or displayed since. For
  \<open>go\<close> then \<open>rust\<close> with \<open>rust\<close> arriving first, the final courses are those of
  \<open>go\<close>.
\<close>

theorem last_settled_response_wins:
  assumes "keyword \<in> set (pending (fetch_run w evs))"
  shows "courses (hook (fetch_run w (evs @ [Settle keyword (Resolved cs)]))) = cs
         \<and> fetch_error (hook (fetch_run w (evs @ [Settle keyword (Resolved cs)]))) = None"
proof -
  let ?w = "fetch_run w evs"
  have "fetch_step ?w (Settle keyword (Resolved cs)) =
          ?w\<lparr>hook := fetch_settle (hook ?w) (Resolved cs),
               pending := remove1 keyword (pending ?w)\<rparr>"
    using assms by simp
  then show ?thesis
    by (simp add: fetch_run_snoc fetch_settle_def)
qed

theorem last_settled_response_wins_witness:
  "''go'' \<in> set (pending (fetch_run world_init go_rust_events))
   \<and> courses (hook (fetch_run world_init
         (go_rust_events @ [Settle ''go'' (Resolved [sample_listed ''go'' [1]])])))
       = [sample_listed ''go'' [1]]"
proof -
  have p: "''go'' \<in> set (pending (fetch_run world_init go_rust_events))"
    by (simp add: fetch_run_def go_rust_events_def world_init_def archive_init_def
      fetchArchivedCourses_def fetch_begin_def fetch_settle_def)
  from p last_settled_response_wins [OF p, of "[sample_listed ''go'' [1]]"]
  show ?thesis by simp
qed

text \<open>
  Claim C8, as stated, fails in the course view: a load that is rejected with a message
  surfaces the fixed text of the \<^verbatim>\<open>catch\<close> clause, not the message.
\<close>

theorem load_failure_counterexample:
  "error (load (Some ''c1'') (\<lambda>_. Thrown (Some ''Network Error'')) logic_init)
     = Some ''Failed to load course.''
   \<and> error (load (Some ''c1'') (\<lambda>_. Thrown (Some ''Network Error'')) logic_init)
     \<noteq> Some ''Network Error''"
  by (simp add: load_def request_def load_settle_def load_begin_def logic_init_def)

text \<open>
  Claim C8, amended. In the archive listing a failed fetch surfaces the collaborator's
  message when it is present and not empty, and \<open>Failed to load archived courses\<close>
  otherwise, and leaves the courses unchanged; a successful fetch stores the courses
  and sets the error to null. In the course view a rejected load surfaces
  \<open>Failed to load course.\<close> whatever message the rejection carries, and leaves the
  course unchanged.
\<close>

theorem fetch_failure_message:
  "(\<forall>s. m = Some s \<and> s \<noteq> [] \<longrightarrow> fetch_error (fetch_settle st (Rejected m)) = Some s)
   \<and> (m = None \<or> m = Some [] \<longrightarrow>
        fetch_error (fetch_settle st (Rejected m)) = Some ''Failed to load archived courses'')
   \<and> courses (fetch_settle st (Rejected m)) = courses st
   \<and> fetch_error (fetch_settle st (Resolved cs)) = None
   \<and> courses (fetch_settle st (Resolved cs)) = cs
   \<and> error (load_settle True lst (Thrown m)) = Some ''Failed to load course.''
   \<and> loaded_course (load_settle True lst (Thrown m)) = loaded_course lst"
  by (auto simp: fetch_settle_def message_or_def load_settle_def)

theorem fetch_failure_message_witness:
  "fetch_error (fetch_settle (archive_init :: nat archive_state) (Rejected (Some ''Server down'')))
     = Some ''Server down''
   \<and> fetch_error (fetch_settle (archive_init :: nat archive_state) (Rejected None))
     = Some ''Failed to load archived courses''
   \<and> fetch_error (fetch_settle (archive_init :: nat archive_state) (Rejected (Some [])))
     = Some ''Failed to load archived courses''
   \<and> error (load_settle True logic_init (Thrown (Some ''Server down'')))
     = Some ''Failed to load course.''"
  using fetch_failure_message [of "Some ''Server down''" "archive_init :: nat archive_state" "[]" logic_init]
    fetch_failure_message [of None "archive_init :: nat archive_state" "[]" logic_init]
    fetch_failure_message [of "Some []" "archive_init :: nat archive_state" "[]" logic_init]
  by simp


section \<open>Properties of the quiz assessment engine\<close>




text \<open>
  Claim C2, as stated, fails: in a quiz whose first and second options are both flagged
  correct, the submitted selection of the second option is graded correct.
\<close>

theorem second_flagged_option_counterexample:
  "isCorrect (options quiz_two_flags ! 0) \<and> isCorrect (options quiz_two_flags ! 1)
   \<and> truthy (quiz_isCorrect quiz_two_flags
        (quiz_run [quiz_two_flags] quiz_init [SelectOption 0 1, Submit 0]) 0)"
  by (simp add: quiz_isCorrect_def quiz_run_def quiz_init_def handleSelect_def truthy_def
      js_index_def quiz_two_flags_def sample_option_def)

text \<open>
  Claim C2, amended. The grade of a submitted question is the correctness flag of the
  selected option itself, however many options are flagged: selecting any flagged
  option is graded correct and shows the check mark, selecting an option that is not
  flagged is graded incorrect and shows the cross.
\<close>

theorem grade_is_flag_of_selected:
  assumes "truthy (submitted st q)" and "answers st q = Some i" and "i < length (options qz)"
  shows "quiz_isCorrect qz st q = Some (isCorrect (options qz ! i))
         \<and> option_icon_of (submitted st q) (answers st q) i (options qz ! i)
             = (if isCorrect (options qz ! i) then Check else Cross)"
  using assms by (simp add: quiz_isCorrect_def js_index_def option_icon_of_def)

theorem grade_is_flag_of_selected_witness:
  "truthy (submitted (quiz_run [quiz_two_flags] quiz_init [SelectOption 0 2, Submit 0]) 0)
   \<and> answers (quiz_run [quiz_two_flags] quiz_init [SelectOption 0 2, Submit 0]) 0 = Some 2
   \<and> 2 < length (options quiz_two_flags)
   \<and> quiz_isCorrect quiz_two_flags
        (quiz_run [quiz_two_flags] quiz_init [SelectOption 0 2, Submit 0]) 0 = Some False"
proof -
  let ?st = "quiz_run [quiz_two_flags] quiz_init [SelectOption 0 2, Submit 0]"
  have sub: "truthy (submitted ?st 0)" and ans: "answers ?st 0 = Some 2"
    by (simp_all add: quiz_run_def quiz_init_def handleSelect_def truthy_def quiz_two_flags_def
        sample_option_def)
  have len: "2 < length (options quiz_two_flags)"
    by (simp add: quiz_two_flags_def)
  have flag: "isCorrect (options quiz_two_flags ! 2) = False"
    by (simp add: quiz_two_flags_def sample_option_def)
  from grade_is_flag_of_selected [OF sub ans len] sub ans len flag
  show ?thesis by simp
qed

text \<open>
  Claim C10. Grading never fails on a recorded option index outside the option list:
  the read of the selected option gives undefined, the grade of the submitted question
  is undefined, which is falsy (not correct), and every option button renders, with
  the check mark on the flagged options and no cross.
\<close>

theorem grading_out_of_range:
  assumes "truthy (submitted st q)" and "answers st q = Some i" and "length (options qz) \<le> i"
  shows "quiz_isCorrect qz st q = None \<and> \<not> truthy (quiz_isCorrect qz st q)
         \<and> (\<forall>oIdx < length (options qz).
               option_icon_of (submitted st q) (answers st q) oIdx (options qz ! oIdx)
                 = (if isCorrect (options qz ! oIdx) then Check else NoIcon))"
  using assms by (auto simp: quiz_isCorrect_def js_index_def option_icon_of_def truthy_def)

theorem grading_out_of_range_witness:
  "truthy (submitted (quiz_run [quiz_two_flags] quiz_init [SelectOption 0 1, Submit 0]) 0)
   \<and> answers (quiz_run [quiz_two_flags] quiz_init [SelectOption 0 1, Submit 0]) 0 = Some 1
   \<and> length (options quiz_one_option) \<le> 1
   \<and> quiz_isCorrect quiz_one_option
        (quiz_run [quiz_two_flags] quiz_init [SelectOption 0 1, Submit 0]) 0 = None"
proof -
  let ?st = "quiz_run [quiz_two_flags] quiz_init [SelectOption 0 1, Submit 0]"
  have sub: "truthy (submitted ?st 0)" and ans: "answers ?st 0 = Some 1"
    by (simp_all add: quiz_run_def quiz_init_def handleSelect_def truthy_def quiz_two_flags_def
        sample_option_def)
  have len: "length (options quiz_one_option) \<le> 1"
    by (simp add: quiz_one_option_def)
  from grading_out_of_range [OF sub ans len] sub ans len
  show ?thesis by simp
qed


section \<open>Properties of the course view\<close>

text \<open>
  Claim C3 fails on the code. After the learner answers and submits the question of
  \<open>L1\<close> and then opens \<open>L2\<close>, whose quiz list is not empty either, the quiz module
  is the same instance: the answer and the submission recorded under \<open>L1\<close> are still
  there, so the state is not the fresh one.
\<close>

theorem quiz_state_survives_lesson_change:
  "activeLesson stale_view = Some lesson_L2
   \<and> map_option (\<lambda>st. answers st 0) (quizModule stale_view) = Some (Some 1)
   \<and> map_option (\<lambda>st. submitted st 0) (quizModule stale_view) = Some (Some True)
   \<and> quizModule stale_view \<noteq> Some quiz_init"
  by (auto simp add: stale_view_def view_run_def view_init_def request_def load_settle_def
      load_begin_def load_success_def render_def reconcile_def quiz_rendered_def
      active_quizzes_def falsy_string_def selectLesson_def quiz_init_def handleSelect_def
      truthy_def sample_option_def quiz_two_flags_def quiz_one_option_def sample_lesson_def
      lesson_L1_def lesson_L2_def lesson_L3_def section_A_def section_B_def sample_course_def
      dest!: fun_cong [where x = 0])








end
